theory Spec2Isabelle
  imports Complex_Main
begin

section \<open>Second-factor services of the CoinSensei client\<close>

text \<open>
  The development follows \<open>services/twoFactorService.ts\<close> (class \<open>TwoFactorService\<close>),
  the PL/pgSQL functions it calls through \<open>supabase.rpc\<close>, \<open>context/AuthContext.tsx\<close>
  (the \<open>AuthProvider\<close>) and \<open>screens/LoginScreen.tsx\<close>.

  Exceptions are values: a function that can throw returns \<open>error + 'a\<close>, with \<open>Inl\<close>
  the thrown error; a \<open>try/catch\<close> is a case distinction on that sum.
\<close>

datatype error = Error string

fun message :: "error \<Rightarrow> string" where
  "message (Error m) = m"

subsection \<open>The table \<open>user_profile\<close>\<close>

text \<open>
  Only the three columns the second-factor code reads and writes; \<open>NULL\<close> is \<open>None\<close>.
  The table is a map from \<open>uid\<close> to its row.
\<close>

type_synonym uid = string

record user_profile_row =
  two_factor_enabled :: bool
  two_factor_secret :: "string option"
  backup_codes :: "string list option"

type_synonym user_profile_table = "uid \<rightharpoonup> user_profile_row"

subsection \<open>TOTP generation and verification (\<open>TwoFactorService\<close>)\<close>

text \<open>
  \<open>TOTP.generate\<close> belongs to the package \<open>totp-generator\<close>, which is not part of the
  repository. It is a parameter \<open>otp_of\<close>: the code (or the exception) the package
  gives for a secret and a time-step counter. The counter is the one \<open>debugTOTP\<close>
  computes beside its own call of \<open>TOTP.generate\<close>:
  \<open>Math.floor(Math.floor(Date.now() / 1000) / 30)\<close>. The clock reading \<open>Date.now()\<close>
  (milliseconds) is the argument \<open>now\<close>.
\<close>

type_synonym totp_package = "string \<Rightarrow> nat \<Rightarrow> error + string"

definition timeStep :: nat where
  "timeStep = 30"

definition counter_at :: "nat \<Rightarrow> nat" where
  "counter_at now = (now div 1000) div timeStep"

definition TOTP_generate :: "totp_package \<Rightarrow> string \<Rightarrow> nat \<Rightarrow> error + string" where
  "TOTP_generate otp_of secret now = otp_of secret (counter_at now)"

text \<open>\<open>generateTOTP\<close>: the \<open>catch\<close> logs and throws the same error again.\<close>

definition generateTOTP :: "totp_package \<Rightarrow> string \<Rightarrow> nat \<Rightarrow> error + string" where
  "generateTOTP otp_of secret now =
     (case TOTP_generate otp_of secret now of
        Inr otp \<Rightarrow> Inr otp
      | Inl e \<Rightarrow> Inl e)"

text \<open>\<open>generateTOTPForTime\<close>: the body never mentions its parameter \<open>time\<close>.\<close>

definition generateTOTPForTime :: "totp_package \<Rightarrow> string \<Rightarrow> nat \<Rightarrow> nat \<Rightarrow> error + string" where
  "generateTOTPForTime otp_of secret time now =
     (case TOTP_generate otp_of secret now of
        Inr otp \<Rightarrow> Inr otp
      | Inl e \<Rightarrow> Inl e)"

text \<open>\<open>verifyTOTP\<close>: strict equality with the generated token; the \<open>catch\<close> returns false.\<close>

definition verifyTOTP :: "totp_package \<Rightarrow> string \<Rightarrow> string \<Rightarrow> nat \<Rightarrow> error + bool" where
  "verifyTOTP otp_of secret token now =
     (case generateTOTP otp_of secret now of
        Inr generatedToken \<Rightarrow> Inr (token = generatedToken)
      | Inl e \<Rightarrow> Inr False)"

subsection \<open>Names in the server functions\<close>

text \<open>
  The columns of \<open>user_profile\<close>: those of its \<open>CREATE TABLE\<close> and the three the
  second-factor functions write. In an SQL statement of a PL/pgSQL function a name
  that is both a variable (or parameter) of the function and a column of a table of
  the statement is rejected when the statement runs, with the error 42702; this is
  the setting \<open>plpgsql.variable_conflict = error\<close>, the default, which nothing in the
  repository changes. \<open>check_references\<close> goes through the names a statement mentions.
\<close>

definition user_profile_columns :: "string list" where
  "user_profile_columns =
     [''uid'', ''full_name'', ''username'', ''phone_number'', ''avatar_url'', ''role'',
      ''cnic_number'', ''dob'', ''address'', ''kyc_status'', ''created_at'', ''is_locked'',
      ''two_factor_enabled'', ''two_factor_secret'', ''backup_codes'']"

definition ambiguous :: "string list \<Rightarrow> string \<Rightarrow> bool" where
  "ambiguous variables name = (name \<in> set variables \<and> name \<in> set user_profile_columns)"

fun check_references :: "string list \<Rightarrow> string list \<Rightarrow> error + unit" where
  "check_references variables [] = Inr ()"
| "check_references variables (name # names) =
     (if ambiguous variables name
      then Inl (Error (''42702 column reference '' @ name @ '' is ambiguous''))
      else check_references variables names)"

subsection \<open>The server function \<open>verify_otp\<close>\<close>

text \<open>
  The function declares the variables \<open>secret\<close>, \<open>backup_codes\<close> and \<open>is_backup_code\<close>
  beside its parameters. Its first statement,
  \<open>SELECT two_factor_secret, backup_codes INTO secret, backup_codes FROM user_profile
  WHERE uid = user_id\<close>, mentions \<open>backup_codes\<close>, which is a variable and a column:
  the statement raises, and the function with it. The rest of the body is what would
  run after the statement: the variables hold the columns of the user's row (\<open>NULL\<close>
  without a row), \<open>array_remove\<close> deletes every occurrence, and both exits are
  \<open>RETURN TRUE\<close>.
\<close>

definition verify_otp_variables :: "string list" where
  "verify_otp_variables = [''user_id'', ''otp'', ''secret'', ''backup_codes'', ''is_backup_code'']"

definition verify_otp :: "user_profile_table \<Rightarrow> uid \<Rightarrow> string
    \<Rightarrow> error + user_profile_table \<times> bool" where
  "verify_otp tbl user_id otp =
     (case check_references verify_otp_variables
             [''two_factor_secret'', ''backup_codes'', ''uid'', ''user_id''] of
        Inl e \<Rightarrow> Inl e
      | Inr selected \<Rightarrow>
          (case tbl user_id of
             None \<Rightarrow> Inr (tbl, True)
           | Some row \<Rightarrow>
               (case backup_codes row of
                  None \<Rightarrow> Inr (tbl, True)
                | Some codes \<Rightarrow>
                    if otp \<in> set codes
                    then Inr (tbl(user_id \<mapsto> row\<lparr>backup_codes := Some (removeAll otp codes)\<rparr>),
                              True)
                    else Inr (tbl, True))))"

subsection \<open>\<open>supabase.rpc\<close>\<close>

text \<open>
  A remote call answers \<open>{ data, error }\<close>. \<open>fault\<close> is the error of the transport, if
  any; then the server function has not run. An error the server function raises is
  the error of the call, and the function has changed nothing.
\<close>

definition rpc :: "error option \<Rightarrow> (user_profile_table \<Rightarrow> error + user_profile_table \<times> 'a)
    \<Rightarrow> user_profile_table \<Rightarrow> user_profile_table \<times> (error + 'a)" where
  "rpc fault f tbl =
     (case fault of
        Some e \<Rightarrow> (tbl, Inl e)
      | None \<Rightarrow>
          (case f tbl of
             Inl raised \<Rightarrow> (tbl, Inl raised)
           | Inr (tbl', data) \<Rightarrow> (tbl', Inr data)))"

subsection \<open>\<open>TwoFactorService.verifyOTP\<close>\<close>

text \<open>
  \<open>profile?.two_factor_secret\<close> is truthy for a row whose secret is neither \<open>NULL\<close> nor
  the empty string.
\<close>

definition stored_secret :: "user_profile_table \<Rightarrow> uid \<Rightarrow> string option" where
  "stored_secret tbl userId =
     (case tbl userId of
        None \<Rightarrow> None
      | Some row \<Rightarrow>
          (case two_factor_secret row of
             None \<Rightarrow> None
           | Some s \<Rightarrow> if s = [] then None else Some s))"

text \<open>
  The local step of \<open>verifyOTP\<close>, inside the \<open>try\<close>: for a 6-character code and a stored
  secret, \<open>verifyTOTP\<close> at the clock reading \<open>now\<close>, then the logging call of
  \<open>generateTOTP\<close> at the later reading \<open>now'\<close>, whose exception is not caught here.
  The result says whether the function returns true at once.
\<close>

definition verifyOTP_local :: "totp_package \<Rightarrow> nat \<Rightarrow> nat \<Rightarrow> user_profile_table \<Rightarrow> uid \<Rightarrow> string
    \<Rightarrow> error + bool" where
  "verifyOTP_local otp_of now now' tbl userId otp =
     (if length otp = 6 then
        (case stored_secret tbl userId of
           None \<Rightarrow> Inr False
         | Some secret \<Rightarrow>
             (case verifyTOTP otp_of secret otp now of
                Inl e \<Rightarrow> Inl e
              | Inr isValidTOTP \<Rightarrow>
                  (case generateTOTP otp_of secret now' of
                     Inl e \<Rightarrow> Inl e
                   | Inr logged \<Rightarrow> Inr isValidTOTP)))
      else Inr False)"

text \<open>
  \<open>verifyOTP\<close>: true at once after a local match; otherwise the remote \<open>verify_otp\<close>,
  whose error is thrown; the outer \<open>catch\<close> turns every exception into \<open>false\<close>.
\<close>

definition verifyOTP :: "totp_package \<Rightarrow> error option \<Rightarrow> nat \<Rightarrow> nat \<Rightarrow> user_profile_table \<Rightarrow> uid
    \<Rightarrow> string \<Rightarrow> user_profile_table \<times> (error + bool)" where
  "verifyOTP otp_of fault now now' tbl userId otp =
     (case verifyOTP_local otp_of now now' tbl userId otp of
        Inl e \<Rightarrow> (tbl, Inr False)
      | Inr True \<Rightarrow> (tbl, Inr True)
      | Inr False \<Rightarrow>
          (case rpc fault (\<lambda>t. verify_otp t userId otp) tbl of
             (tbl', Inl e) \<Rightarrow> (tbl', Inr False)
           | (tbl', Inr data) \<Rightarrow> (tbl', Inr data)))"

subsection \<open>The server function \<open>generate_backup_codes\<close>\<close>

text \<open>
  \<open>floor(random() * 100000000)::TEXT\<close> is the decimal text of an integer; \<open>lpad\<close> pads
  it on the left to the given length, or cuts a longer text to that length. The fill is
  a single character, as in the only call. \<open>floored i\<close> is the value of
  \<open>floor(random() * 100000000)\<close> in iteration \<open>i\<close> of the loop \<open>FOR i IN 1..8\<close>, as the
  server computes it in double precision: a whole number. The statement
  \<open>UPDATE user_profile SET backup_codes = codes WHERE uid = user_id\<close> mentions no name
  that is both a variable and a column.
\<close>

definition digit_char :: "nat \<Rightarrow> char" where
  "digit_char d = ''0123456789'' ! d"

fun decimal :: "nat \<Rightarrow> string" where
  "decimal n = (if n < 10 then [digit_char n] else decimal (n div 10) @ [digit_char (n mod 10)])"

declare decimal.simps [simp del]

definition int_text :: "int \<Rightarrow> string" where
  "int_text i = (if i < 0 then CHR ''-'' # decimal (nat (- i)) else decimal (nat i))"

definition lpad :: "string \<Rightarrow> nat \<Rightarrow> char \<Rightarrow> string" where
  "lpad s n fill = (if n \<le> length s then take n s else replicate (n - length s) fill @ s)"

definition backup_code :: "int \<Rightarrow> string" where
  "backup_code v = lpad (int_text v) 8 CHR ''0''"

fun backup_loop :: "(nat \<Rightarrow> int) \<Rightarrow> nat list \<Rightarrow> string list \<Rightarrow> string list" where
  "backup_loop floored [] codes = codes"
| "backup_loop floored (i # rest) codes =
     backup_loop floored rest (codes @ [backup_code (floored i)])"

definition generate_backup_codes_variables :: "string list" where
  "generate_backup_codes_variables = [''user_id'', ''codes'', ''i'', ''code'']"

definition generate_backup_codes :: "(nat \<Rightarrow> int) \<Rightarrow> user_profile_table \<Rightarrow> uid
    \<Rightarrow> error + user_profile_table \<times> string list" where
  "generate_backup_codes floored tbl user_id =
     (let codes = backup_loop floored [1..<9] []
      in case check_references generate_backup_codes_variables [''codes'', ''uid'', ''user_id''] of
           Inl e \<Rightarrow> Inl e
         | Inr updated \<Rightarrow>
             Inr ((case tbl user_id of
                     None \<Rightarrow> tbl
                   | Some row \<Rightarrow> tbl(user_id \<mapsto> row\<lparr>backup_codes := Some codes\<rparr>)),
                  codes))"

text \<open>\<open>TwoFactorService.generateBackupCodes\<close>: the error of the remote call is thrown.\<close>

definition generateBackupCodes :: "error option \<Rightarrow> (nat \<Rightarrow> int) \<Rightarrow> user_profile_table \<Rightarrow> uid
    \<Rightarrow> user_profile_table \<times> (error + string list)" where
  "generateBackupCodes fault floored tbl userId =
     (case rpc fault (\<lambda>t. generate_backup_codes floored t userId) tbl of
        (tbl', Inl e) \<Rightarrow> (tbl', Inl e)
      | (tbl', Inr data) \<Rightarrow> (tbl', Inr data))"

text \<open>What "an 8-digit numeric string" means, and the number a digit string denotes.\<close>

definition is_digit :: "char \<Rightarrow> bool" where
  "is_digit c = (c \<in> set ''0123456789'')"

definition digit_val :: "char \<Rightarrow> nat" where
  "digit_val c = of_char c - 48"

definition digits_val :: "string \<Rightarrow> nat" where
  "digits_val s = foldl (\<lambda>a c. 10 * a + digit_val c) 0 s"

section \<open>The login flow: \<open>AuthProvider\<close> and the identity provider\<close>

subsection \<open>State\<close>

text \<open>
  \<open>auth_state\<close> holds the session the identity provider keeps (\<open>supabase.auth\<close>, reduced
  to the user id; \<open>getSession\<close> returns it), the calls made to the provider so far
  (oldest first), the \<open>useState\<close> variables of \<open>AuthProvider\<close> (\<open>user\<close> reduced to the
  \<open>uid\<close> of the profile) and the module variable \<open>pending2FACredentials\<close>.
\<close>

datatype auth_event = SIGNED_IN | SIGNED_OUT | TOKEN_REFRESHED | USER_UPDATED

datatype provider_call =
    SignInWithPassword string string
  | SignOut
  | GetSession
  | GetUser
  | SignInWithOtp string
  | VerifyOtp string string

record auth_state =
  session :: "uid option"
  calls :: "provider_call list"
  user :: "uid option"
  loading :: bool
  pending2FA :: "(uid \<times> bool) option"
  isBiometricLogin :: bool
  suppress2FA :: bool
  pending2FACredentials :: "(string \<times> string) option"

text \<open>
  Everything the client talks to: the accounts the identity provider knows (email to
  password and user id), the email code it would accept, the error of sending a code,
  the table \<open>user_profile\<close>, the device (\<open>hasHardware && isEnrolled\<close>, the result of
  \<open>authenticateAsync\<close>) and the secure store (the flag under \<open>biometric_enabled\<close>, the
  credentials under \<open>biometric_credentials\<close>, already parsed).

  \<open>listener_sees\<close> gives the values of \<open>suppress2FA\<close> and \<open>isBiometricLogin\<close> that the
  callback of \<open>onAuthStateChange\<close> reads when it runs in a state.
\<close>

record world =
  accounts :: "string \<rightharpoonup> string \<times> uid"
  email_codes :: "string \<rightharpoonup> string"
  otp_send_error :: "error option"
  user_profile :: user_profile_table
  biometric_available :: bool
  biometric_challenge :: bool
  vault_enabled :: "string option"
  vault_credentials :: "(string \<times> string) option"
  listener_sees :: "auth_state \<Rightarrow> bool \<times> bool"

text \<open>
  The callback is created by an effect with the dependency list \<open>[]\<close>
  (\<open>AuthContext.tsx\<close>, \<open>useEffect(() => { ... }, [])\<close>): the effect runs once, after
  the first render, and its callback keeps the variables of that render, which are the
  initial values \<open>useState(false)\<close> of both flags. \<open>as_mounted\<close> is that reading;
  \<open>live\<close> would be a callback that read the current state.
\<close>

definition as_mounted :: "auth_state \<Rightarrow> bool \<times> bool" where
  "as_mounted st = (False, False)"

definition live :: "auth_state \<Rightarrow> bool \<times> bool" where
  "live st = (suppress2FA st, isBiometricLogin st)"

subsection \<open>\<open>fetchUserData\<close>\<close>

definition is_space :: "char \<Rightarrow> bool" where
  "is_space c = (c \<in> set [CHR '' '', CHR 0x09, CHR 0x0A, CHR 0x0B, CHR 0x0C, CHR 0x0D])"

text \<open>\<open>!userId || userId.trim() === ''\<close>\<close>

definition blank :: "string \<Rightarrow> bool" where
  "blank s = list_all is_space s"

text \<open>
  \<open>getSession\<close> is called once, and once more when it found no session; the user is set
  when the profile row exists (then \<open>getUser\<close> is called) and cleared otherwise.
\<close>

definition fetchUserData :: "world \<Rightarrow> uid \<Rightarrow> bool \<Rightarrow> auth_state \<Rightarrow> auth_state" where
  "fetchUserData w userId showLoading st =
     (if blank userId then (if showLoading then st\<lparr>loading := False\<rparr> else st)
      else
        let st1 = (if showLoading then st\<lparr>loading := True\<rparr> else st);
            st2 = st1\<lparr>calls := calls st1 @
                    (if session st1 = None then [GetSession, GetSession] else [GetSession])\<rparr>;
            st3 = (case user_profile w userId of
                     Some row \<Rightarrow> st2\<lparr>calls := calls st2 @ [GetUser], user := Some userId\<rparr>
                   | None \<Rightarrow> st2\<lparr>user := None\<rparr>)
        in (if showLoading then st3\<lparr>loading := False\<rparr> else st3))"

subsection \<open>The callback of \<open>onAuthStateChange\<close>\<close>

text \<open>
  \<open>seen_suppress2FA\<close> and \<open>seen_isBiometricLogin\<close> are the values of the two flags in the
  callback's closure. A failed profile query (no row) goes on without 2FA.
\<close>

definition onAuthStateChange :: "bool \<Rightarrow> bool \<Rightarrow> world \<Rightarrow> auth_event \<Rightarrow> uid option
    \<Rightarrow> auth_state \<Rightarrow> auth_state" where
  "onAuthStateChange seen_suppress2FA seen_isBiometricLogin w event new_session st =
     (if seen_suppress2FA then st
      else if new_session \<noteq> None \<and> new_session \<noteq> Some [] then
        (let userId = the new_session in
         if event = TOKEN_REFRESHED then st
         else if event = USER_UPDATED then st
         else
           (case user_profile w userId of
              None \<Rightarrow> fetchUserData w userId True st
            | Some profile \<Rightarrow>
                let requires2FA = two_factor_enabled profile in
                if requires2FA \<and> event = SIGNED_IN \<and> \<not> seen_isBiometricLogin
                then st\<lparr>pending2FA := Some (userId, True), loading := False\<rparr>
                else fetchUserData w userId True (st\<lparr>pending2FA := None\<rparr>)))
      else st\<lparr>user := None, pending2FA := None, loading := False\<rparr>)"

definition notify :: "world \<Rightarrow> auth_event \<Rightarrow> uid option \<Rightarrow> auth_state \<Rightarrow> auth_state" where
  "notify w event new_session st =
     (case listener_sees w st of
        (seen_suppress2FA, seen_isBiometricLogin) \<Rightarrow>
          onAuthStateChange seen_suppress2FA seen_isBiometricLogin w event new_session st)"

subsection \<open>The identity provider (\<open>supabase.auth\<close>)\<close>

text \<open>
  Modelled from the spec: the Identity Provider of section 6, which is the package
  \<open>@supabase/supabase-js\<close> and not code of the repository.
  \<open>signInWithPassword(email, password) -> session|error\<close> establishes a session when the
  credentials are those of an account; \<open>signOut()\<close> removes the session;
  \<open>getSession()\<close> returns it; \<open>sendEmailOneTimeCode\<close> is \<open>signInWithOtp\<close> and
  \<open>verifyEmailOneTimeCode(email, code) -> session|error\<close> is \<open>verifyOtp\<close>. A change of
  the session is announced to the callback before the call returns, with the event
  names the callback tests for.
\<close>

definition auth_signInWithPassword :: "world \<Rightarrow> string \<Rightarrow> string \<Rightarrow> auth_state
    \<Rightarrow> auth_state \<times> (error + uid)" where
  "auth_signInWithPassword w email password st =
     (let st1 = st\<lparr>calls := calls st @ [SignInWithPassword email password]\<rparr>
      in case accounts w email of
           None \<Rightarrow> (st1, Inl (Error ''Invalid login credentials''))
         | Some (stored, userId) \<Rightarrow>
             if stored = password
             then (notify w SIGNED_IN (Some userId) (st1\<lparr>session := Some userId\<rparr>), Inr userId)
             else (st1, Inl (Error ''Invalid login credentials'')))"

definition auth_signOut :: "world \<Rightarrow> auth_state \<Rightarrow> auth_state" where
  "auth_signOut w st = notify w SIGNED_OUT None (st\<lparr>calls := calls st @ [SignOut], session := None\<rparr>)"

definition auth_getSession :: "auth_state \<Rightarrow> auth_state \<times> uid option" where
  "auth_getSession st = (st\<lparr>calls := calls st @ [GetSession]\<rparr>, session st)"

definition auth_signInWithOtp :: "world \<Rightarrow> string \<Rightarrow> auth_state \<Rightarrow> auth_state \<times> error option" where
  "auth_signInWithOtp w email st = (st\<lparr>calls := calls st @ [SignInWithOtp email]\<rparr>, otp_send_error w)"

definition auth_verifyOtp :: "world \<Rightarrow> string \<Rightarrow> string \<Rightarrow> auth_state
    \<Rightarrow> auth_state \<times> (error + uid)" where
  "auth_verifyOtp w email token st =
     (let st1 = st\<lparr>calls := calls st @ [VerifyOtp email token]\<rparr>
      in case (email_codes w email, accounts w email) of
           (Some code, Some (stored, userId)) \<Rightarrow>
             if code = token
             then (notify w SIGNED_IN (Some userId) (st1\<lparr>session := Some userId\<rparr>), Inr userId)
             else (st1, Inl (Error ''Token has expired or is invalid''))
         | _ \<Rightarrow> (st1, Inl (Error ''Token has expired or is invalid'')))"

subsection \<open>\<open>AuthProvider\<close>: the functions of the context\<close>

text \<open>\<open>signInWith2FA\<close> keeps the credentials in the module variable; an error clears them.\<close>

definition signInWith2FA :: "world \<Rightarrow> string \<Rightarrow> string \<Rightarrow> auth_state \<Rightarrow> auth_state \<times> (error + uid)" where
  "signInWith2FA w email password st =
     (case auth_signInWithPassword w email password
             (st\<lparr>pending2FACredentials := Some (email, password)\<rparr>) of
        (st1, Inl e) \<Rightarrow> (st1\<lparr>pending2FACredentials := None\<rparr>, Inl e)
      | (st1, Inr data) \<Rightarrow> (st1, Inr data))"

text \<open>
  \<open>complete2FALogin\<close>: with a pending 2FA and stored credentials, a fresh
  \<open>signInWithPassword\<close>; the stored credentials are cleared right after the call,
  whatever its result. On an error the \<open>catch\<close> clears again, signs out and throws.
  Without them only a message is logged.
\<close>

definition complete2FALogin :: "world \<Rightarrow> auth_state \<Rightarrow> auth_state \<times> (error + unit)" where
  "complete2FALogin w st =
     (case pending2FA st of
        None \<Rightarrow> (st, Inr ())
      | Some pending \<Rightarrow>
          (case pending2FACredentials st of
             None \<Rightarrow> (st, Inr ())
           | Some (email, password) \<Rightarrow>
               (case auth_signInWithPassword w email password (st\<lparr>pending2FA := None\<rparr>) of
                  (st1, Inl e) \<Rightarrow>
                    (auth_signOut w (st1\<lparr>pending2FACredentials := None, pending2FA := None\<rparr>), Inl e)
                | (st1, Inr userId) \<Rightarrow>
                    (fetchUserData w userId False
                       (st1\<lparr>pending2FACredentials := None, user := Some userId, loading := False\<rparr>),
                     Inr ()))))"

definition cancel2FALogin :: "world \<Rightarrow> auth_state \<Rightarrow> auth_state" where
  "cancel2FALogin w st = auth_signOut w (st\<lparr>pending2FA := None, pending2FACredentials := None\<rparr>)"

definition beginEmailOtpFlow :: "auth_state \<Rightarrow> auth_state" where
  "beginEmailOtpFlow st = st\<lparr>suppress2FA := True\<rparr>"

definition endEmailOtpFlow :: "auth_state \<Rightarrow> auth_state" where
  "endEmailOtpFlow st = st\<lparr>suppress2FA := False\<rparr>"

text \<open>
  \<open>complete2FAUsingExistingSession\<close>: no sign-in; the session found by \<open>getSession\<close> is
  the one used, and without one the function only logs.
\<close>

definition complete2FAUsingExistingSession :: "world \<Rightarrow> auth_state \<Rightarrow> auth_state" where
  "complete2FAUsingExistingSession w st =
     (case auth_getSession st of
        (st1, found) \<Rightarrow>
          if found = None \<or> found = Some [] then st1
          else fetchUserData w (the found) True (st1\<lparr>pending2FA := None\<rparr>))"

text \<open>\<open>BiometricService.authenticateWithBiometric\<close>\<close>

definition authenticateWithBiometric :: "world \<Rightarrow> (string \<times> string) option" where
  "authenticateWithBiometric w =
     (if vault_enabled w \<noteq> Some ''true'' then None
      else if \<not> biometric_available w then None
      else if \<not> biometric_challenge w then None
      else vault_credentials w)"

text \<open>
  \<open>signInWithBiometric\<close>: the flag is set before the sign-in and reset on every exit
  after it; \<open>finally\<close> resets \<open>loading\<close>.
\<close>

definition signInWithBiometric :: "world \<Rightarrow> auth_state \<Rightarrow> auth_state \<times> bool" where
  "signInWithBiometric w st =
     (case authenticateWithBiometric w of
        None \<Rightarrow> (st\<lparr>loading := False\<rparr>, False)
      | Some (email, password) \<Rightarrow>
          (case auth_signInWithPassword w email password
                  (st\<lparr>loading := True, isBiometricLogin := True\<rparr>) of
             (st1, Inl e) \<Rightarrow> (st1\<lparr>isBiometricLogin := False, loading := False\<rparr>, False)
           | (st1, Inr userId) \<Rightarrow>
               ((fetchUserData w userId True st1)\<lparr>isBiometricLogin := False, loading := False\<rparr>,
                True)))"

section \<open>The login screen\<close>

subsection \<open>State of \<open>LoginScreen\<close>\<close>

text \<open>
  The \<open>useState\<close> variables the handlers read and write, the alerts shown so far (oldest
  first) and the number of interval timers started.
\<close>

datatype popup = Alert string string | PlainAlert string

record login_screen =
  email :: string
  password :: string
  showEmailOtpModal :: bool
  emailOtpCode :: string
  sendingEmailOtp :: bool
  verifyingEmailOtp :: bool
  resendSecondsLeft :: nat
  showVerifyingOverlay :: bool
  alerts :: "popup list"
  timers :: nat

subsection \<open>\<open>handleLogin\<close>\<close>

text \<open>
  Step 1 of \<open>handleLogin\<close>: \<open>beginEmailOtpFlow\<close>, the overlay, the password check; after
  a successful check \<open>signOut\<close> and \<open>endEmailOtpFlow\<close>. An error leaves the \<open>try\<close>.
\<close>

definition handleLogin_step1 :: "world \<Rightarrow> auth_state \<times> login_screen
    \<Rightarrow> (auth_state \<times> login_screen) \<times> (error + unit)" where
  "handleLogin_step1 w p =
     (case p of
        (st, scr) \<Rightarrow>
          (case auth_signInWithPassword w (email scr) (password scr) (beginEmailOtpFlow st) of
             (st1, Inl e) \<Rightarrow> ((st1, scr\<lparr>showVerifyingOverlay := True\<rparr>), Inl e)
           | (st1, Inr data) \<Rightarrow>
               ((endEmailOtpFlow (auth_signOut w st1), scr\<lparr>showVerifyingOverlay := True\<rparr>),
                Inr ())))"

text \<open>
  Step 2: the email code is sent; then the modal opens and the countdown starts at 30.
\<close>

definition handleLogin_step2 :: "world \<Rightarrow> auth_state \<times> login_screen
    \<Rightarrow> (auth_state \<times> login_screen) \<times> (error + unit)" where
  "handleLogin_step2 w p =
     (case p of
        (st, scr) \<Rightarrow>
          (case auth_signInWithOtp w (email scr) st of
             (st1, Some otpError) \<Rightarrow> ((st1, scr\<lparr>sendingEmailOtp := False\<rparr>), Inl otpError)
           | (st1, None) \<Rightarrow>
               ((st1, scr\<lparr>sendingEmailOtp := False, showEmailOtpModal := True, emailOtpCode := [],
                          resendSecondsLeft := 30, timers := timers scr + 1,
                          showVerifyingOverlay := False\<rparr>),
                Inr ())))"

definition handleLogin_catch :: "auth_state \<times> login_screen \<Rightarrow> error \<Rightarrow> auth_state \<times> login_screen" where
  "handleLogin_catch p e =
     (case p of
        (st, scr) \<Rightarrow>
          (st, scr\<lparr>showVerifyingOverlay := False, alerts := alerts scr @ [PlainAlert (message e)]\<rparr>))"

definition handleLogin :: "world \<Rightarrow> auth_state \<times> login_screen \<Rightarrow> auth_state \<times> login_screen" where
  "handleLogin w p =
     (case p of
        (st, scr) \<Rightarrow>
          if email scr = [] \<or> password scr = []
          then (st, scr\<lparr>alerts := alerts scr @ [PlainAlert ''Please fill in all fields'']\<rparr>)
          else
            (case handleLogin_step1 w (st, scr) of
               (p1, Inl e) \<Rightarrow> handleLogin_catch p1 e
             | (p1, Inr checked) \<Rightarrow>
                 (case handleLogin_step2 w p1 of
                    (p2, Inl e) \<Rightarrow> handleLogin_catch p2 e
                  | (p2, Inr sent) \<Rightarrow> p2)))"

subsection \<open>The email code: verify, resend, countdown\<close>

definition or_default :: "string \<Rightarrow> string \<Rightarrow> string" where
  "or_default m d = (if m = [] then d else m)"

definition handleVerifyEmailOtp :: "world \<Rightarrow> auth_state \<times> login_screen \<Rightarrow> auth_state \<times> login_screen" where
  "handleVerifyEmailOtp w p =
     (case p of
        (st, scr) \<Rightarrow>
          if emailOtpCode scr = [] \<or> length (emailOtpCode scr) < 6
          then (st, scr\<lparr>alerts := alerts scr @
                          [Alert ''Error'' ''Please enter the 6-digit code sent to your email'']\<rparr>)
          else
            (case auth_verifyOtp w (email scr) (emailOtpCode scr) st of
               (st1, Inl err) \<Rightarrow>
                 (st1, scr\<lparr>verifyingEmailOtp := False,
                           alerts := alerts scr @
                             [Alert ''Invalid Code''
                                (or_default (message err) ''Failed to verify email code'')]\<rparr>)
             | (st1, Inr data) \<Rightarrow>
                 (st1, scr\<lparr>verifyingEmailOtp := False, showEmailOtpModal := False,
                           emailOtpCode := []\<rparr>)))"

text \<open>
  \<open>handleResendEmailOtp\<close>: the first statement of the \<open>try\<close> is
  \<open>if (resendSecondsLeft > 0) return;\<close>.
\<close>

definition handleResendEmailOtp :: "world \<Rightarrow> auth_state \<times> login_screen \<Rightarrow> auth_state \<times> login_screen" where
  "handleResendEmailOtp w p =
     (case p of
        (st, scr) \<Rightarrow>
          if resendSecondsLeft scr > 0 then (st, scr)
          else
            (case auth_signInWithOtp w (email scr) st of
               (st1, Some err) \<Rightarrow>
                 (st1, scr\<lparr>sendingEmailOtp := False,
                           alerts := alerts scr @
                             [Alert ''Error'' (or_default (message err) ''Failed to resend code'')]\<rparr>)
             | (st1, None) \<Rightarrow>
                 (st1, scr\<lparr>sendingEmailOtp := False,
                           alerts := alerts scr @
                             [Alert ''Code Sent''
                                ''We have resent the verification code to your email''],
                           resendSecondsLeft := 30, timers := timers scr + 1\<rparr>)))"

text \<open>One run of an interval timer's callback, every 1000 ms.\<close>

definition tick :: "nat \<Rightarrow> nat" where
  "tick s = (if s \<le> 1 then 0 else s - 1)"




subsection \<open>The second factor: \<open>OTPVerification\<close> and its callbacks\<close>

text \<open>
  The value of the context always holds \<open>complete2FAUsingExistingSession\<close> (the field is
  optional in \<open>AuthContextType\<close> only), so the test in \<open>handle2FASuccess\<close> takes its first
  branch; the second one calls \<open>complete2FALogin\<close> and alerts its error.
\<close>

definition context_complete2FAUsingExistingSession :: "(world \<Rightarrow> auth_state \<Rightarrow> auth_state) option" where
  "context_complete2FAUsingExistingSession = Some complete2FAUsingExistingSession"

definition handle2FASuccess :: "world \<Rightarrow> auth_state \<times> login_screen \<Rightarrow> auth_state \<times> login_screen" where
  "handle2FASuccess w p =
     (case p of
        (st, scr) \<Rightarrow>
          (case context_complete2FAUsingExistingSession of
             Some existing \<Rightarrow> (existing w st, scr)
           | None \<Rightarrow>
               (case complete2FALogin w st of
                  (st1, Inl e) \<Rightarrow> (st1, scr\<lparr>alerts := alerts scr @ [PlainAlert (message e)]\<rparr>)
                | (st1, Inr finished) \<Rightarrow> (st1, scr))))"

definition handle2FACancel :: "world \<Rightarrow> auth_state \<times> login_screen \<Rightarrow> auth_state \<times> login_screen" where
  "handle2FACancel w p = (case p of (st, scr) \<Rightarrow> (cancel2FALogin w st, scr))"

text \<open>
  \<open>debugTOTP\<close> reads the clock itself and calls \<open>TOTP.generate\<close>, which reads it again.
\<close>

definition debugTOTP :: "totp_package \<Rightarrow> string \<Rightarrow> nat \<Rightarrow> nat \<Rightarrow> error + nat \<times> nat \<times> string" where
  "debugTOTP otp_of secret now now' =
     (case TOTP_generate otp_of secret now' of
        Inl e \<Rightarrow> Inl e
      | Inr otp \<Rightarrow> Inr (now div 1000, (now div 1000) div 30, otp))"

text \<open>
  \<open>handleVerifyOTP\<close> of \<open>OTPVerification\<close>. \<open>userId\<close> is the property of that name,
  \<open>user_uid\<close> is \<open>user?.uid\<close> of the context, \<open>clock k\<close> the \<open>k\<close>-th reading of the clock.
  An authenticator code is checked locally with \<open>verifyTOTP\<close>, a backup code with
  \<open>verifyOTP\<close>. The result is what the handler does at its end.
\<close>

datatype otp_result = InputRejected string | Verified | InvalidCode | VerifyFailed error

definition currentUserId :: "uid option \<Rightarrow> uid option \<Rightarrow> uid option" where
  "currentUserId userId user_uid =
     (let chosen = (if userId \<noteq> None \<and> userId \<noteq> Some [] then userId else user_uid)
      in if chosen = Some [] then None else chosen)"

definition handleVerifyOTP :: "totp_package \<Rightarrow> error option \<Rightarrow> (nat \<Rightarrow> nat) \<Rightarrow> bool \<Rightarrow> string
    \<Rightarrow> uid option \<Rightarrow> uid option \<Rightarrow> user_profile_table \<Rightarrow> user_profile_table \<times> otp_result" where
  "handleVerifyOTP otp_of fault clock showBackupCode code userId user_uid tbl =
     (if code = [] then (tbl, InputRejected ''Please enter a verification code'')
      else if \<not> showBackupCode \<and> length code \<noteq> 6
      then (tbl, InputRejected ''Please enter a 6-digit verification code'')
      else if showBackupCode \<and> length code \<noteq> 8
      then (tbl, InputRejected ''Please enter an 8-digit backup code'')
      else
        (case currentUserId userId user_uid of
           None \<Rightarrow> (tbl, VerifyFailed (Error ''No user ID available for verification''))
         | Some current \<Rightarrow>
             if \<not> showBackupCode then
               (case stored_secret tbl current of
                  None \<Rightarrow> (tbl, VerifyFailed (Error ''Unable to get 2FA secret''))
                | Some secret \<Rightarrow>
                    (case debugTOTP otp_of secret (clock 0) (clock 1) of
                       Inl e \<Rightarrow> (tbl, VerifyFailed e)
                     | Inr debug \<Rightarrow>
                         (case generateTOTP otp_of secret (clock 2) of
                            Inl e \<Rightarrow> (tbl, VerifyFailed e)
                          | Inr generatedTOTP \<Rightarrow>
                              (case verifyTOTP otp_of secret code (clock 3) of
                                 Inl e \<Rightarrow> (tbl, VerifyFailed e)
                               | Inr isValid \<Rightarrow>
                                   (tbl, if isValid then Verified else InvalidCode)))))
             else
               (case verifyOTP otp_of fault (clock 0) (clock 1) tbl current code of
                  (tbl', Inl e) \<Rightarrow> (tbl', VerifyFailed e)
                | (tbl', Inr isValid) \<Rightarrow> (tbl', if isValid then Verified else InvalidCode))))"

text \<open>
  The modal as \<open>LoginScreen\<close> renders it: \<open>userId={pending2FA?.userId}\<close>,
  \<open>onSuccess={handle2FASuccess}\<close>. A verified code calls \<open>onSuccess\<close>; the table is the
  one the world holds, and a consumed backup code is gone from it afterwards.
\<close>

definition submit_2fa_code :: "totp_package \<Rightarrow> error option \<Rightarrow> (nat \<Rightarrow> nat) \<Rightarrow> bool \<Rightarrow> string
    \<Rightarrow> world \<Rightarrow> auth_state \<times> login_screen \<Rightarrow> world \<times> (auth_state \<times> login_screen) \<times> otp_result" where
  "submit_2fa_code otp_of fault clock showBackupCode code w p =
     (case p of
        (st, scr) \<Rightarrow>
          (case handleVerifyOTP otp_of fault clock showBackupCode code
                  (map_option fst (pending2FA st)) (user st) (user_profile w) of
             (tbl', result) \<Rightarrow>
               let w' = w\<lparr>user_profile := tbl'\<rparr>
               in if result = Verified then (w', handle2FASuccess w' (st, scr), result)
                  else (w', (st, scr), result)))"

section \<open>Sample data\<close>

text \<open>
  The account of the end-to-end example: secret \<open>JBSWY3DPEHPK3PXP\<close>, and a package
  that gives the code \<open>482913\<close> at every time step. Two backup codes are stored.
\<close>

definition sample_package :: totp_package where
  "sample_package secret counter = Inr ''482913''"

definition bob_row :: user_profile_row where
  "bob_row = \<lparr>two_factor_enabled = True, two_factor_secret = Some ''JBSWY3DPEHPK3PXP'',
               backup_codes = Some [''12345678'', ''87654321'']\<rparr>"

definition bob_table :: user_profile_table where
  "bob_table = [''bob-uid'' \<mapsto> bob_row]"

text \<open>
  A world with two accounts that both have 2FA enabled. Alice has opted in to the
  biometric login on this device. The callback reads the two flags as mounted.
\<close>

definition alice_row :: user_profile_row where
  "alice_row = \<lparr>two_factor_enabled = True, two_factor_secret = Some ''GEZDGNBVGY3TQOJQ'',
                 backup_codes = None\<rparr>"

definition demo_world :: world where
  "demo_world =
     \<lparr>accounts = [''bob@example.com'' \<mapsto> (''Secret123'', ''bob-uid''),
                  ''alice@example.com'' \<mapsto> (''correct-password'', ''alice-uid'')],
      email_codes = [''bob@example.com'' \<mapsto> ''246810''],
      otp_send_error = None,
      user_profile = bob_table(''alice-uid'' \<mapsto> alice_row),
      biometric_available = True,
      biometric_challenge = True,
      vault_enabled = Some ''true'',
      vault_credentials = Some (''alice@example.com'', ''correct-password''),
      listener_sees = as_mounted\<rparr>"

text \<open>The state of a freshly started application with nobody signed in.\<close>

definition idle_state :: auth_state where
  "idle_state =
     \<lparr>session = None, calls = [], user = None, loading = False, pending2FA = None,
      isBiometricLogin = False, suppress2FA = False, pending2FACredentials = None\<rparr>"

definition bob_screen :: login_screen where
  "bob_screen =
     \<lparr>email = ''bob@example.com'', password = ''Secret123'', showEmailOtpModal = False,
      emailOtpCode = [], sendingEmailOtp = False, verifyingEmailOtp = False,
      resendSecondsLeft = 0, showVerifyingOverlay = False, alerts = [], timers = 0\<rparr>"

text \<open>Bob has submitted his password and then the email code \<open>246810\<close>.\<close>

definition bob_after_email_code :: "auth_state \<times> login_screen" where
  "bob_after_email_code =
     (case handleLogin demo_world (idle_state, bob_screen) of
        (st, scr) \<Rightarrow> handleVerifyEmailOtp demo_world (st, scr\<lparr>emailOtpCode := ''246810''\<rparr>))"

text \<open>Carol has no second factor enabled; the same world with her account.\<close>

definition carol_row :: user_profile_row where
  "carol_row = \<lparr>two_factor_enabled = False, two_factor_secret = None, backup_codes = None\<rparr>"

definition carol_world :: world where
  "carol_world =
     demo_world\<lparr>accounts := (accounts demo_world)(''carol@example.com'' \<mapsto> (''Passw0rd'', ''carol-uid'')),
                user_profile := (user_profile demo_world)(''carol-uid'' \<mapsto> carol_row)\<rparr>"

definition carol_screen :: login_screen where
  "carol_screen = bob_screen\<lparr>email := ''carol@example.com'', password := ''Passw0rd''\<rparr>"


text \<open>Provider calls that only read: \<open>getSession\<close> and \<open>getUser\<close>.\<close>

definition only_reads :: "provider_call list \<Rightarrow> bool" where
  "only_reads cs = list_all (\<lambda>c. c = GetSession \<or> c = GetUser) cs"

section \<open>Properties of the TOTP engine\<close>

lemma verifyTOTP_total: "\<exists>b. verifyTOTP otp_of secret token now = Inr b"
  by (cases "generateTOTP otp_of secret now") (auto simp: verifyTOTP_def)

text \<open>
  C9. A code generated for a secret is accepted by \<open>verifyTOTP\<close> at any clock reading
  of the same 30-second step; \<open>verifyTOTP\<close> never throws, and answers false when the
  generation inside it throws.
\<close>

theorem verifyTOTP_accepts_generated:
  "(generateTOTP otp_of secret t1 = Inr code \<and> counter_at t1 = counter_at t2
      \<longrightarrow> verifyTOTP otp_of secret code t2 = Inr True)
   \<and> (generateTOTP otp_of secret t2 = Inl e \<longrightarrow> verifyTOTP otp_of secret token t2 = Inr False)
   \<and> (\<exists>b. verifyTOTP otp_of secret token t2 = Inr b)"
  by (auto simp: verifyTOTP_def generateTOTP_def TOTP_generate_def split: sum.splits)

theorem verifyTOTP_accepts_generated_witness:
  "generateTOTP (\<lambda>s c. if s = [] then Inl (Error ''empty secret'') else Inr ''482913'')
      ''JBSWY3DPEHPK3PXP'' 60000 = Inr ''482913''
   \<and> counter_at 60000 = counter_at 89999
   \<and> verifyTOTP (\<lambda>s c. if s = [] then Inl (Error ''empty secret'') else Inr ''482913'')
      ''JBSWY3DPEHPK3PXP'' ''482913'' 89999 = Inr True
   \<and> generateTOTP (\<lambda>s c. if s = [] then Inl (Error ''empty secret'') else Inr ''482913'')
      [] 89999 = Inl (Error ''empty secret'')
   \<and> verifyTOTP (\<lambda>s c. if s = [] then Inl (Error ''empty secret'') else Inr ''482913'')
      [] ''482913'' 89999 = Inr False"
  using verifyTOTP_accepts_generated
    [of "\<lambda>s c. if s = [] then Inl (Error ''empty secret'') else Inr ''482913''"
        "''JBSWY3DPEHPK3PXP''" 60000 "''482913''" 89999]
    verifyTOTP_accepts_generated
    [of "\<lambda>s c. if s = [] then Inl (Error ''empty secret'') else Inr ''482913''"
        "[]" 60000 "''482913''" 89999 "Error ''empty secret''" "''482913''"]
  by (simp add: generateTOTP_def TOTP_generate_def counter_at_def timeStep_def)

text \<open>
  C10. \<open>generateTOTPForTime\<close> gives the same result for every value of its argument
  \<open>time\<close>, and that result is the one of \<open>generateTOTP\<close> at the same clock reading.
\<close>

theorem generateTOTPForTime_ignores_time:
  "generateTOTPForTime otp_of secret t1 now = generateTOTPForTime otp_of secret t2 now
   \<and> generateTOTPForTime otp_of secret t1 now = generateTOTP otp_of secret now"
  by (simp add: generateTOTPForTime_def generateTOTP_def)

section \<open>Properties of the verification gateway\<close>

lemma verify_otp_raises:
  "verify_otp tbl user_id otp = Inl (Error ''42702 column reference backup_codes is ambiguous'')"
  by (simp add: verify_otp_def verify_otp_variables_def ambiguous_def user_profile_columns_def)

lemma rpc_verify_otp: "\<exists>e. rpc fault (\<lambda>t. verify_otp t userId otp) tbl = (tbl, Inl e)"
  by (cases fault) (simp_all add: rpc_def verify_otp_raises)

lemma verifyOTP_never_throws: "\<exists>b. snd (verifyOTP otp_of fault now now' tbl userId otp) = Inr b"
  by (auto simp: verifyOTP_def rpc_def split: sum.splits bool.splits option.splits prod.splits)

lemma verifyOTP_keeps_table: "fst (verifyOTP otp_of fault now now' tbl userId otp) = tbl"
  using rpc_verify_otp[of fault userId otp tbl]
  by (auto simp: verifyOTP_def split: sum.splits bool.splits)

lemma verifyOTP_false_unless_local:
  "verifyOTP_local otp_of now now' tbl userId otp \<noteq> Inr True
   \<Longrightarrow> verifyOTP otp_of fault now now' tbl userId otp = (tbl, Inr False)"
  using rpc_verify_otp[of fault userId otp tbl]
  by (cases "verifyOTP_local otp_of now now' tbl userId otp")
     (auto simp: verifyOTP_def split: bool.splits)


lemma verifyOTP_local_wrong_code:
  assumes "tbl userId = Some row" "two_factor_secret row = Some secret"
    and "generateTOTP otp_of secret now \<noteq> Inr otp"
  shows "verifyOTP_local otp_of now now' tbl userId otp \<noteq> Inr True"
  using assms
  by (auto simp: verifyOTP_local_def stored_secret_def verifyTOTP_def split: sum.splits if_splits)

text \<open>
  C1. For an account whose row stores a secret and a set of backup codes, a code that
  is neither the TOTP of the stored secret at the current time step nor one of the
  stored backup codes makes \<open>verifyOTP\<close> return false, without an exception and without
  a change of the table, whatever the transport does.
\<close>

theorem verifyOTP_rejects_wrong_code:
  assumes "tbl userId = Some row" and "two_factor_secret row = Some secret"
    and "backup_codes row = Some codes"
    and "generateTOTP otp_of secret now \<noteq> Inr otp" and "otp \<notin> set codes"
  shows "verifyOTP otp_of fault now now' tbl userId otp = (tbl, Inr False)"
  using verifyOTP_local_wrong_code[where tbl = tbl and userId = userId, OF assms(1,2,4)]
  by (rule verifyOTP_false_unless_local)

theorem verifyOTP_rejects_wrong_code_witness:
  "generateTOTP sample_package ''JBSWY3DPEHPK3PXP'' 60000 = Inr ''482913''
   \<and> verifyOTP sample_package None 60000 60000 bob_table ''bob-uid'' ''000000'' = (bob_table, Inr False)
   \<and> verifyOTP sample_package None 60000 60000 bob_table ''bob-uid'' ''00000000'' = (bob_table, Inr False)"
proof -
  have r: "bob_table ''bob-uid'' = Some bob_row"
    "two_factor_secret bob_row = Some ''JBSWY3DPEHPK3PXP''"
    "backup_codes bob_row = Some [''12345678'', ''87654321'']"
    by (simp_all add: bob_table_def bob_row_def)
  have g: "generateTOTP sample_package ''JBSWY3DPEHPK3PXP'' 60000 = Inr ''482913''"
    by (simp add: generateTOTP_def TOTP_generate_def sample_package_def)
  have a: "generateTOTP sample_package ''JBSWY3DPEHPK3PXP'' 60000 \<noteq> Inr ''000000''"
    "generateTOTP sample_package ''JBSWY3DPEHPK3PXP'' 60000 \<noteq> Inr ''00000000''"
    by (simp_all add: g)
  have n: "''000000'' \<notin> set [''12345678'', ''87654321'']"
    "''00000000'' \<notin> set [''12345678'', ''87654321'']"
    by simp_all
  show ?thesis
    using verifyOTP_rejects_wrong_code
        [where tbl = bob_table and userId = "''bob-uid''", OF r a(1) n(1), of None 60000]
      verifyOTP_rejects_wrong_code
        [where tbl = bob_table and userId = "''bob-uid''", OF r a(2) n(2), of None 60000] g
    by simp
qed



section \<open>Properties of the backup codes\<close>

lemma digit_cases: "d < 10 \<Longrightarrow> d \<in> {0,1,2,3,4,5,6,7,8,9::nat}"
  by auto

lemma digit_val_digit_char: "d < 10 \<Longrightarrow> digit_val (digit_char d) = d"
  by (drule digit_cases) (auto simp: digit_val_def digit_char_def)

lemma is_digit_digit_char: "d < 10 \<Longrightarrow> is_digit (digit_char d)"
  by (drule digit_cases) (auto simp: is_digit_def digit_char_def)

lemma decimal_digits: "list_all is_digit (decimal n)"
proof (induction n rule: decimal.induct)
  case (1 n)
  show ?case
  proof (cases "n < 10")
    case True
    then show ?thesis by (simp add: decimal.simps[of n] is_digit_digit_char)
  next
    case False
    with 1 show ?thesis by (simp add: decimal.simps[of n] is_digit_digit_char)
  qed
qed

lemma decimal_length: "n < 10 ^ k \<Longrightarrow> 0 < k \<Longrightarrow> length (decimal n) \<le> k"
proof (induction n arbitrary: k rule: decimal.induct)
  case (1 n)
  show ?case
  proof (cases "n < 10")
    case True
    with 1 show ?thesis by (simp add: decimal.simps[of n])
  next
    case False
    obtain j where k: "k = Suc j" using 1(3) by (cases k) auto
    have "j \<noteq> 0" using False 1(2) k by (cases j) auto
    moreover have "n div 10 < 10 ^ j" using 1(2) k by (simp add: less_mult_imp_div_less)
    ultimately have "length (decimal (n div 10)) \<le> j" using 1(1)[OF False] by simp
    then show ?thesis using False k by (simp add: decimal.simps[of n])
  qed
qed

lemma digits_val_append: "digits_val (s @ [c]) = 10 * digits_val s + digit_val c"
  by (simp add: digits_val_def)

lemma digits_val_decimal: "digits_val (decimal n) = n"
proof (induction n rule: decimal.induct)
  case (1 n)
  show ?case
  proof (cases "n < 10")
    case True
    then show ?thesis by (simp add: decimal.simps[of n] digits_val_def digit_val_digit_char)
  next
    case False
    with 1 show ?thesis
      by (simp add: decimal.simps[of n] digits_val_append digit_val_digit_char)
  qed
qed

lemma foldl_zero_pad: "foldl (\<lambda>a c. 10 * a + digit_val c) 0 (replicate m CHR ''0'' @ s)
   = foldl (\<lambda>a c. 10 * a + digit_val c) 0 s"
  by (induction m) (simp_all add: digit_val_def)

lemma digits_val_pad: "digits_val (replicate m CHR ''0'' @ s) = digits_val s"
  by (simp only: digits_val_def foldl_zero_pad)

lemma backup_code_props:
  assumes "0 \<le> v" "v < 100000000"
  shows "length (backup_code v) = 8" "list_all is_digit (backup_code v)"
    "digits_val (backup_code v) = nat v"
proof -
  let ?n = "nat v"
  have "?n < 100000000" using assms by linarith
  then have lt: "?n < 10 ^ 8" by simp
  have as_dec: "int_text v = decimal ?n" using assms(1) by (simp add: int_text_def)
  have len: "length (decimal ?n) \<le> 8" using decimal_length[OF lt] by simp
  have shape: "backup_code v = replicate (8 - length (decimal ?n)) CHR ''0'' @ decimal ?n"
    using len by (auto simp: backup_code_def as_dec lpad_def)
  show "length (backup_code v) = 8" using len by (simp add: shape)
  have "is_digit CHR ''0''" by (simp add: is_digit_def)
  then show "list_all is_digit (backup_code v)"
    using decimal_digits[of ?n] by (auto simp: shape list_all_iff)
  show "digits_val (backup_code v) = ?n"
    by (simp only: shape digits_val_pad digits_val_decimal)
qed

lemma backup_loop_map: "backup_loop floored is codes = codes @ map (\<lambda>i. backup_code (floored i)) is"
  by (induction "is" arbitrary: codes) simp_all

lemma replicate_numeral: "replicate (numeral k) x = x # replicate (pred_numeral k) x"
  by (simp add: numeral_eq_Suc)

lemma backup_code_eq_iff:
  assumes "0 \<le> v" "v < 100000000" "0 \<le> v'" "v' < 100000000"
  shows "backup_code v = backup_code v' \<longleftrightarrow> v = v'"
proof
  assume "backup_code v = backup_code v'"
  then have "nat v = nat v'"
    using backup_code_props(3)[OF assms(1,2)] backup_code_props(3)[OF assms(3,4)] by simp
  then show "v = v'" using assms(1,3) by linarith
next
  assume "v = v'"
  then show "backup_code v = backup_code v'" by simp
qed

lemma generate_backup_codes_runs:
  "generate_backup_codes floored tbl user_id =
     Inr ((case tbl user_id of
             None \<Rightarrow> tbl
           | Some row \<Rightarrow>
               tbl(user_id \<mapsto> row\<lparr>backup_codes := Some (map (\<lambda>i. backup_code (floored i)) [1..<9])\<rparr>)),
          map (\<lambda>i. backup_code (floored i)) [1..<9])"
  by (cases "tbl user_id")
     (simp_all add: generate_backup_codes_def generate_backup_codes_variables_def ambiguous_def
        user_profile_columns_def backup_loop_map Let_def)

lemma generateBackupCodes_result:
  "snd (generateBackupCodes None floored tbl userId)
     = Inr (map (\<lambda>i. backup_code (floored i)) [1..<9])"
  by (simp add: generateBackupCodes_def rpc_def generate_backup_codes_runs)

text \<open>
  C7, as amended. When the remote call succeeds, \<open>generateBackupCodes\<close> returns 8 codes,
  each of 8 decimal digits, the values \<open>floor(random() * 100000000)\<close> being whole numbers
  from 0 to 99999999; the codes are pairwise distinct exactly when these 8 values are.
\<close>

theorem generateBackupCodes_eight_codes:
  assumes range: "\<forall>i\<in>{1..8}. 0 \<le> floored i \<and> floored i < 100000000"
  shows "\<exists>codes. snd (generateBackupCodes None floored tbl userId) = Inr codes
           \<and> length codes = 8
           \<and> (\<forall>c\<in>set codes. length c = 8 \<and> list_all is_digit c)
           \<and> (distinct codes \<longleftrightarrow> distinct (map floored [1..<9]))"
proof -
  let ?codes = "map (\<lambda>i. backup_code (floored i)) [1..<9]"
  have mem: "0 \<le> floored i \<and> floored i < 100000000" if "i \<in> set [1..<9]" for i
    using range that by auto
  have each: "\<forall>c\<in>set ?codes. length c = 8 \<and> list_all is_digit c"
    using mem backup_code_props(1,2) by auto
  have "inj_on (\<lambda>i. backup_code (floored i)) (set [1..<9]) \<longleftrightarrow> inj_on floored (set [1..<9])"
    unfolding inj_on_def using mem backup_code_eq_iff by blast
  then have "distinct ?codes \<longleftrightarrow> distinct (map floored [1..<9])"
    by (simp only: distinct_map)
  moreover have "length ?codes = 8" by simp
  ultimately show ?thesis using each generateBackupCodes_result by blast
qed

theorem generateBackupCodes_eight_codes_witness:
  "\<exists>codes. snd (generateBackupCodes None (\<lambda>i. 10000000 * int i) bob_table ''bob-uid'') = Inr codes
      \<and> length codes = 8 \<and> distinct codes"
proof -
  have "\<forall>i\<in>{1..8}. 0 \<le> 10000000 * int i \<and> 10000000 * int i < 100000000" by auto
  from generateBackupCodes_eight_codes[OF this, of bob_table "''bob-uid''"]
  obtain codes where c: "snd (generateBackupCodes None (\<lambda>i. 10000000 * int i) bob_table ''bob-uid'') = Inr codes"
    "length codes = 8"
    "distinct codes \<longleftrightarrow> distinct (map (\<lambda>i. 10000000 * int i) [1..<9])"
    by blast
  have "[1..<9] = [1,2,3,4,5,6,7,8]" by (simp add: upt_rec)
  then have "distinct (map (\<lambda>i. 10000000 * int i) [1..<9])" by simp
  with c show ?thesis by blast
qed

text \<open>
  C7 as stated fails: when \<open>floor(random() * 100000000)\<close> is 25000000 eight times, the
  eight codes are equal.
\<close>

theorem generateBackupCodes_collision:
  "snd (generateBackupCodes None (\<lambda>i. 25000000) bob_table ''bob-uid'')
     = Inr [''25000000'', ''25000000'', ''25000000'', ''25000000'',
            ''25000000'', ''25000000'', ''25000000'', ''25000000'']"
proof -
  have "[1..<9] = [1,2,3,4,5,6,7,8]" by (simp add: upt_rec)
  moreover have "backup_code 25000000 = ''25000000''"
    by (simp add: backup_code_def int_text_def lpad_def decimal.simps digit_char_def)
  ultimately show ?thesis by (simp add: generateBackupCodes_result)
qed

section \<open>Properties of the login flow\<close>

subsection \<open>What the provider calls and the callback preserve\<close>

lemma fetchUserData_keeps:
  "session (fetchUserData w userId showLoading st) = session st"
  "pending2FACredentials (fetchUserData w userId showLoading st) = pending2FACredentials st"
  "\<exists>ext. calls (fetchUserData w userId showLoading st) = calls st @ ext \<and> only_reads ext"
  by (auto simp: fetchUserData_def Let_def only_reads_def split: option.splits)

lemma onAuthStateChange_keeps:
  "session (onAuthStateChange s b w event new_session st) = session st"
  "pending2FACredentials (onAuthStateChange s b w event new_session st) = pending2FACredentials st"
  "\<exists>ext. calls (onAuthStateChange s b w event new_session st) = calls st @ ext \<and> only_reads ext"
proof -
  have r: "\<exists>ext. calls (fetchUserData w u True (st\<lparr>pending2FA := None\<rparr>)) = calls st @ ext \<and> only_reads ext" for u
    using fetchUserData_keeps(3)[of w u True "st\<lparr>pending2FA := None\<rparr>"] by simp
  have e: "\<exists>ext. calls st = calls st @ ext \<and> only_reads ext"
    by (rule exI[of _ "[]"]) (simp add: only_reads_def)
  show "session (onAuthStateChange s b w event new_session st) = session st"
    by (simp add: onAuthStateChange_def Let_def fetchUserData_keeps split: option.splits)
  show "pending2FACredentials (onAuthStateChange s b w event new_session st) = pending2FACredentials st"
    by (simp add: onAuthStateChange_def Let_def fetchUserData_keeps split: option.splits)
  show "\<exists>ext. calls (onAuthStateChange s b w event new_session st) = calls st @ ext \<and> only_reads ext"
    using r e fetchUserData_keeps(3)[of w _ True st]
    by (simp add: onAuthStateChange_def Let_def split: option.splits)
qed

lemma notify_keeps:
  "session (notify w event new_session st) = session st"
  "pending2FACredentials (notify w event new_session st) = pending2FACredentials st"
  "\<exists>ext. calls (notify w event new_session st) = calls st @ ext \<and> only_reads ext"
  by (simp_all add: notify_def onAuthStateChange_keeps split: prod.splits)

lemma notify_signed_out:
  "calls (notify w SIGNED_OUT None st) = calls st"
  "pending2FA st = None \<Longrightarrow> pending2FA (notify w SIGNED_OUT None st) = None"
  "user st = None \<Longrightarrow> user (notify w SIGNED_OUT None st) = None"
  by (simp_all add: notify_def onAuthStateChange_def split: prod.splits)

lemma auth_signOut_effect:
  "session (auth_signOut w st) = None"
  "pending2FACredentials (auth_signOut w st) = pending2FACredentials st"
  "calls (auth_signOut w st) = calls st @ [SignOut]"
  "pending2FA st = None \<Longrightarrow> pending2FA (auth_signOut w st) = None"
  "user st = None \<Longrightarrow> user (auth_signOut w st) = None"
  by (simp_all add: auth_signOut_def notify_keeps notify_signed_out)

lemma auth_signInWithPassword_ok:
  assumes "accounts w em = Some (pw, userId)"
  shows "snd (auth_signInWithPassword w em pw st) = Inr userId"
    "session (fst (auth_signInWithPassword w em pw st)) = Some userId"
    "pending2FACredentials (fst (auth_signInWithPassword w em pw st)) = pending2FACredentials st"
    "\<exists>ext. calls (fst (auth_signInWithPassword w em pw st)) = calls st @ SignInWithPassword em pw # ext
        \<and> only_reads ext"
proof -
  let ?st1 = "st\<lparr>calls := calls st @ [SignInWithPassword em pw], session := Some userId\<rparr>"
  have eq: "auth_signInWithPassword w em pw st = (notify w SIGNED_IN (Some userId) ?st1, Inr userId)"
    using assms by (simp add: auth_signInWithPassword_def Let_def)
  show "snd (auth_signInWithPassword w em pw st) = Inr userId" by (simp add: eq)
  show "session (fst (auth_signInWithPassword w em pw st)) = Some userId"
    by (simp add: eq notify_keeps)
  show "pending2FACredentials (fst (auth_signInWithPassword w em pw st)) = pending2FACredentials st"
    by (simp add: eq notify_keeps)
  show "\<exists>ext. calls (fst (auth_signInWithPassword w em pw st)) = calls st @ SignInWithPassword em pw # ext
        \<and> only_reads ext"
    using notify_keeps(3)[of w SIGNED_IN "Some userId" ?st1] by (simp add: eq)
qed

lemma auth_signInWithPassword_any:
  "pending2FACredentials (fst (auth_signInWithPassword w em pw st)) = pending2FACredentials st"
  "\<exists>ext. calls (fst (auth_signInWithPassword w em pw st)) = calls st @ SignInWithPassword em pw # ext"
proof -
  let ?st1 = "st\<lparr>calls := calls st @ [SignInWithPassword em pw]\<rparr>"
  have c: "\<exists>ext. calls (notify w SIGNED_IN (Some u) (?st1\<lparr>session := Some u\<rparr>))
             = calls st @ SignInWithPassword em pw # ext" for u
    using notify_keeps(3)[of w SIGNED_IN "Some u" "?st1\<lparr>session := Some u\<rparr>"] by auto
  show "pending2FACredentials (fst (auth_signInWithPassword w em pw st)) = pending2FACredentials st"
    by (simp add: auth_signInWithPassword_def Let_def notify_keeps split: option.splits prod.splits)
  show "\<exists>ext. calls (fst (auth_signInWithPassword w em pw st)) = calls st @ SignInWithPassword em pw # ext"
    using c by (simp add: auth_signInWithPassword_def Let_def split: option.splits prod.splits)
qed


lemmas eval_defs =
  handleLogin_def handleLogin_step1_def handleLogin_step2_def handleLogin_catch_def
  handleVerifyEmailOtp_def handleResendEmailOtp_def handle2FASuccess_def handle2FACancel_def
  auth_signInWithPassword_def auth_signOut_def auth_getSession_def auth_signInWithOtp_def
  auth_verifyOtp_def notify_def onAuthStateChange_def fetchUserData_def blank_def is_space_def
  beginEmailOtpFlow_def endEmailOtpFlow_def complete2FAUsingExistingSession_def
  context_complete2FAUsingExistingSession_def complete2FALogin_def cancel2FALogin_def
  signInWithBiometric_def authenticateWithBiometric_def as_mounted_def live_def
  demo_world_def idle_state_def bob_screen_def bob_table_def bob_row_def alice_row_def Let_def

lemma bob_handleLogin:
  "handleLogin demo_world (idle_state, bob_screen) =
     (idle_state\<lparr>calls := [SignInWithPassword ''bob@example.com'' ''Secret123'', SignOut,
                             SignInWithOtp ''bob@example.com'']\<rparr>,
      bob_screen\<lparr>showEmailOtpModal := True, resendSecondsLeft := 30, timers := 1\<rparr>)"
  by (simp add: eval_defs)

lemma bob_after_email_code_value:
  "bob_after_email_code =
     (idle_state\<lparr>session := Some ''bob-uid'',
                  calls := [SignInWithPassword ''bob@example.com'' ''Secret123'', SignOut,
                            SignInWithOtp ''bob@example.com'',
                            VerifyOtp ''bob@example.com'' ''246810''],
                  pending2FA := Some (''bob-uid'', True)\<rparr>,
      bob_screen\<lparr>resendSecondsLeft := 30, timers := 1\<rparr>)"
  unfolding bob_after_email_code_def bob_handleLogin
  by (simp add: eval_defs)

subsection \<open>Completing the login after the second factor\<close>

lemmas otp_defs =
  submit_2fa_code_def handleVerifyOTP_def currentUserId_def stored_secret_def debugTOTP_def
  generateTOTP_def verifyTOTP_def TOTP_generate_def sample_package_def verifyOTP_def
  verifyOTP_local_def rpc_def verify_otp_def

text \<open>
  C3 as stated fails. Bob has passed the password step and the email code; his correct
  authenticator code \<open>482913\<close> is verified and \<open>onSuccess\<close> runs. The only
  \<open>signInWithPassword\<close> of the whole login is the one of the password step, before the
  sign-out: after the email code the provider is only asked for the session and the
  user. The session is the one the email code established, and the screen still holds
  the password.
\<close>

theorem login_2fa_success_reuses_session:
  "snd (snd (submit_2fa_code sample_package None (\<lambda>k. 60000) False ''482913'' demo_world
               bob_after_email_code)) = Verified
   \<and> calls (fst (fst (snd (submit_2fa_code sample_package None (\<lambda>k. 60000) False ''482913''
                              demo_world bob_after_email_code))))
       = [SignInWithPassword ''bob@example.com'' ''Secret123'', SignOut,
          SignInWithOtp ''bob@example.com'', VerifyOtp ''bob@example.com'' ''246810'',
          GetSession, GetSession, GetUser]
   \<and> session (fst (fst (snd (submit_2fa_code sample_package None (\<lambda>k. 60000) False ''482913''
                              demo_world bob_after_email_code)))) = Some ''bob-uid''
   \<and> user (fst (fst (snd (submit_2fa_code sample_package None (\<lambda>k. 60000) False ''482913''
                              demo_world bob_after_email_code)))) = Some ''bob-uid''
   \<and> password (snd (fst (snd (submit_2fa_code sample_package None (\<lambda>k. 60000) False ''482913''
                              demo_world bob_after_email_code)))) = ''Secret123''"
  unfolding bob_after_email_code_value
  by (auto simp: otp_defs eval_defs)

lemma complete2FAUsingExistingSession_keeps:
  "session (complete2FAUsingExistingSession w st) = session st"
  "pending2FACredentials (complete2FAUsingExistingSession w st) = pending2FACredentials st"
  "\<exists>ext. calls (complete2FAUsingExistingSession w st) = calls st @ GetSession # ext \<and> only_reads ext"
proof -
  let ?st1 = "st\<lparr>calls := calls st @ [GetSession]\<rparr>"
  have f: "\<exists>ext. calls (fetchUserData w u True (?st1\<lparr>pending2FA := None\<rparr>))
             = calls st @ GetSession # ext \<and> only_reads ext" for u
    using fetchUserData_keeps(3)[of w u True "?st1\<lparr>pending2FA := None\<rparr>"] by simp
  have e: "\<exists>ext. calls ?st1 = calls st @ GetSession # ext \<and> only_reads ext"
    by (rule exI[of _ "[]"]) (simp add: only_reads_def)
  show "session (complete2FAUsingExistingSession w st) = session st"
    by (simp add: complete2FAUsingExistingSession_def auth_getSession_def fetchUserData_keeps)
  show "pending2FACredentials (complete2FAUsingExistingSession w st) = pending2FACredentials st"
    by (simp add: complete2FAUsingExistingSession_def auth_getSession_def fetchUserData_keeps)
  show "\<exists>ext. calls (complete2FAUsingExistingSession w st) = calls st @ GetSession # ext \<and> only_reads ext"
    using f e by (simp add: complete2FAUsingExistingSession_def auth_getSession_def)
qed

lemma handle2FASuccess_eq:
  "handle2FASuccess w (st, scr) = (complete2FAUsingExistingSession w st, scr)"
  by (simp add: handle2FASuccess_def context_complete2FAUsingExistingSession_def)

lemma complete2FALogin_reauthenticates:
  assumes "pending2FA st = Some pending" "pending2FACredentials st = Some (em, pw)"
  shows "pending2FACredentials (fst (complete2FALogin w st)) = None"
    "\<exists>ext. calls (fst (complete2FALogin w st)) = calls st @ SignInWithPassword em pw # ext"
proof -
  let ?st0 = "st\<lparr>pending2FA := None\<rparr>"
  obtain st1 r where r: "auth_signInWithPassword w em pw ?st0 = (st1, r)"
    by (cases "auth_signInWithPassword w em pw ?st0")
  obtain ext where ext: "calls st1 = calls st @ SignInWithPassword em pw # ext"
    using auth_signInWithPassword_any(2)[of w em pw ?st0] r by auto
  show "pending2FACredentials (fst (complete2FALogin w st)) = None"
    using assms r
    by (cases r) (simp_all add: complete2FALogin_def auth_signOut_effect fetchUserData_keeps)
  show "\<exists>ext. calls (fst (complete2FALogin w st)) = calls st @ SignInWithPassword em pw # ext"
  proof (cases r)
    case (Inl e)
    then show ?thesis using assms r ext
      by (simp add: complete2FALogin_def auth_signOut_effect)
  next
    case (Inr userId)
    let ?st2 = "st1\<lparr>pending2FACredentials := None, user := Some userId, loading := False\<rparr>"
    obtain ext2 where "calls (fetchUserData w userId False ?st2) = calls ?st2 @ ext2"
      using fetchUserData_keeps(3)[of w userId False ?st2] by blast
    then show ?thesis using assms r ext Inr
      by (simp add: complete2FALogin_def)
  qed
qed

text \<open>
  C3, as amended. \<open>handle2FASuccess\<close> completes the login on the existing session: its
  first provider call is \<open>getSession\<close>, every later one is \<open>getSession\<close> or \<open>getUser\<close>;
  the session, the stored credentials and the password of the screen stay as they are.
  \<open>complete2FALogin\<close>, with a pending 2FA and stored credentials, first calls
  \<open>signInWithPassword\<close> with exactly these credentials and ends with none stored.
\<close>

theorem handle2FASuccess_uses_existing_session:
  "(\<exists>ext. calls (fst (handle2FASuccess w (st, scr))) = calls st @ GetSession # ext \<and> only_reads ext)
   \<and> session (fst (handle2FASuccess w (st, scr))) = session st
   \<and> pending2FACredentials (fst (handle2FASuccess w (st, scr))) = pending2FACredentials st
   \<and> password (snd (handle2FASuccess w (st, scr))) = password scr
   \<and> (pending2FA st = Some pending \<and> pending2FACredentials st = Some (em, pw) \<longrightarrow>
        pending2FACredentials (fst (complete2FALogin w st)) = None
        \<and> (\<exists>ext. calls (fst (complete2FALogin w st)) = calls st @ SignInWithPassword em pw # ext))"
  using complete2FAUsingExistingSession_keeps[of w st] complete2FALogin_reauthenticates[of st pending em pw w]
  by (simp add: handle2FASuccess_eq)

theorem handle2FASuccess_uses_existing_session_witness:
  "pending2FA ((fst bob_after_email_code)\<lparr>pending2FACredentials := Some (''bob@example.com'', ''Secret123'')\<rparr>)
     = Some (''bob-uid'', True)
   \<and> pending2FACredentials
        (fst (handle2FASuccess demo_world
               ((fst bob_after_email_code)\<lparr>pending2FACredentials := Some (''bob@example.com'', ''Secret123'')\<rparr>,
                snd bob_after_email_code)))
       = Some (''bob@example.com'', ''Secret123'')
   \<and> pending2FACredentials
        (fst (complete2FALogin demo_world
               ((fst bob_after_email_code)\<lparr>pending2FACredentials := Some (''bob@example.com'', ''Secret123'')\<rparr>)))
       = None"
  using handle2FASuccess_uses_existing_session
    [of demo_world
        "(fst bob_after_email_code)\<lparr>pending2FACredentials := Some (''bob@example.com'', ''Secret123'')\<rparr>"
        "snd bob_after_email_code" "(''bob-uid'', True)" "''bob@example.com''" "''Secret123''"]
  by (simp add: bob_after_email_code_value)

subsection \<open>The password step\<close>

lemma handleLogin_step1_ok:
  assumes "accounts w (email scr) = Some (password scr, userId)"
  shows "snd (handleLogin_step1 w (st, scr)) = Inr ()"
    "session (fst (fst (handleLogin_step1 w (st, scr)))) = None"
    "\<exists>mid. calls (fst (fst (handleLogin_step1 w (st, scr))))
        = calls st @ SignInWithPassword (email scr) (password scr) # mid @ [SignOut] \<and> only_reads mid"
    "snd (fst (handleLogin_step1 w (st, scr))) = scr\<lparr>showVerifyingOverlay := True\<rparr>"
proof -
  let ?st0 = "beginEmailOtpFlow st"
  obtain st1 where r: "auth_signInWithPassword w (email scr) (password scr) ?st0 = (st1, Inr userId)"
    using auth_signInWithPassword_ok(1)[OF assms, of ?st0]
    by (cases "auth_signInWithPassword w (email scr) (password scr) ?st0") simp
  obtain mid where mid: "calls st1 = calls st @ SignInWithPassword (email scr) (password scr) # mid"
      "only_reads mid"
    using auth_signInWithPassword_ok(4)[OF assms, of ?st0] r by (auto simp: beginEmailOtpFlow_def)
  have eq: "handleLogin_step1 w (st, scr)
      = ((endEmailOtpFlow (auth_signOut w st1), scr\<lparr>showVerifyingOverlay := True\<rparr>), Inr ())"
    by (simp add: handleLogin_step1_def r)
  show "snd (handleLogin_step1 w (st, scr)) = Inr ()" by (simp add: eq)
  show "session (fst (fst (handleLogin_step1 w (st, scr)))) = None"
    by (simp add: eq endEmailOtpFlow_def auth_signOut_effect)
  show "\<exists>mid. calls (fst (fst (handleLogin_step1 w (st, scr))))
        = calls st @ SignInWithPassword (email scr) (password scr) # mid @ [SignOut] \<and> only_reads mid"
    using mid by (simp add: eq endEmailOtpFlow_def auth_signOut_effect)
  show "snd (fst (handleLogin_step1 w (st, scr))) = scr\<lparr>showVerifyingOverlay := True\<rparr>"
    by (simp add: eq)
qed

lemma handleLogin_step2_effect:
  "session (fst (fst (handleLogin_step2 w (st, scr)))) = session st"
  "calls (fst (fst (handleLogin_step2 w (st, scr)))) = calls st @ [SignInWithOtp (email scr)]"
  by (simp_all add: handleLogin_step2_def auth_signInWithOtp_def split: option.splits)

lemma handleLogin_after_step1:
  assumes "email scr \<noteq> []" "password scr \<noteq> []" "snd (handleLogin_step1 w (st, scr)) = Inr ()"
  shows "session (fst (handleLogin w (st, scr))) = session (fst (fst (handleLogin_step1 w (st, scr))))"
    "calls (fst (handleLogin w (st, scr)))
       = calls (fst (fst (handleLogin_step1 w (st, scr)))) @ [SignInWithOtp (email scr)]"
proof -
  obtain st1 scr1 where p1: "handleLogin_step1 w (st, scr) = ((st1, scr1), Inr ())"
    using assms(3) by (cases "handleLogin_step1 w (st, scr)") auto
  have e: "email scr1 = email scr"
    using p1 by (auto simp: handleLogin_step1_def split: prod.splits sum.splits)
  obtain p2 r2 where p2: "handleLogin_step2 w (st1, scr1) = (p2, r2)"
    by (cases "handleLogin_step2 w (st1, scr1)")
  have s2: "session (fst p2) = session st1" "calls (fst p2) = calls st1 @ [SignInWithOtp (email scr)]"
    using handleLogin_step2_effect[of w st1 scr1] p2 e by simp_all
  have "fst (handleLogin w (st, scr)) = fst p2"
    using assms(1,2) p1 p2
    by (cases r2; cases p2) (simp_all add: handleLogin_def handleLogin_catch_def)
  then show "session (fst (handleLogin w (st, scr))) = session (fst (fst (handleLogin_step1 w (st, scr))))"
    "calls (fst (handleLogin w (st, scr)))
       = calls (fst (fst (handleLogin_step1 w (st, scr)))) @ [SignInWithOtp (email scr)]"
    using s2 p1 by simp_all
qed

text \<open>
  When the password check of \<open>handleLogin\<close> succeeds, step 1 ends without a session:
  the last call of the step is \<open>signOut\<close>, the email code is requested right after
  that, and \<open>handleLogin\<close> returns without a session. Between \<open>signInWithPassword\<close> and
  \<open>signOut\<close> the provider may be asked for the session and the user.
\<close>

lemma handleLogin_signs_out_before_email_code:
  assumes "accounts w (email scr) = Some (password scr, userId)"
    and "email scr \<noteq> []" and "password scr \<noteq> []"
  shows "session (fst (fst (handleLogin_step1 w (st, scr)))) = None
    \<and> (\<exists>mid. calls (fst (fst (handleLogin_step1 w (st, scr))))
               = calls st @ SignInWithPassword (email scr) (password scr) # mid @ [SignOut]
             \<and> only_reads mid)
    \<and> calls (fst (handleLogin w (st, scr)))
        = calls (fst (fst (handleLogin_step1 w (st, scr)))) @ [SignInWithOtp (email scr)]
    \<and> session (fst (handleLogin w (st, scr))) = None"
  using handleLogin_step1_ok[OF assms(1), of st]
    handleLogin_after_step1[OF assms(2,3), of w st]
  by simp

text \<open>
  C4 (the code departs from it). Carol has no second factor and her password is right.
  \<open>handleLogin\<close> sets \<open>suppress2FA\<close> with \<open>beginEmailOtpFlow\<close> and checks the password; the
  callback of \<open>onAuthStateChange\<close> reads the \<open>suppress2FA\<close> of the first render and runs
  all the same on \<open>SIGNED_IN\<close>: when \<open>signInWithPassword\<close> returns, the session of the
  check is in place, the profile has been loaded on it (\<open>getSession\<close>, \<open>getUser\<close>) and
  \<open>user\<close> is set. Only then \<open>handleLogin\<close> signs out and asks for the email code.
\<close>

theorem handleLogin_loads_profile_before_sign_out:
  "map_option two_factor_enabled (user_profile carol_world ''carol-uid'') = Some False
   \<and> suppress2FA (beginEmailOtpFlow idle_state) = True
   \<and> session (fst (auth_signInWithPassword carol_world (email carol_screen) (password carol_screen)
                      (beginEmailOtpFlow idle_state))) = Some ''carol-uid''
   \<and> user (fst (auth_signInWithPassword carol_world (email carol_screen) (password carol_screen)
                   (beginEmailOtpFlow idle_state))) = Some ''carol-uid''
   \<and> calls (fst (auth_signInWithPassword carol_world (email carol_screen) (password carol_screen)
                    (beginEmailOtpFlow idle_state)))
       = [SignInWithPassword ''carol@example.com'' ''Passw0rd'', GetSession, GetUser]
   \<and> calls (fst (handleLogin carol_world (idle_state, carol_screen)))
       = [SignInWithPassword ''carol@example.com'' ''Passw0rd'', GetSession, GetUser, SignOut,
          SignInWithOtp ''carol@example.com'']
   \<and> session (fst (handleLogin carol_world (idle_state, carol_screen))) = None
   \<and> user (fst (handleLogin carol_world (idle_state, carol_screen))) = None"
  by (simp add: eval_defs carol_world_def carol_screen_def carol_row_def)

text \<open>
  With a callback that read the current flag, nothing would be loaded during the
  password check.
\<close>

lemma handleLogin_live_flag:
  "user (fst (auth_signInWithPassword (carol_world\<lparr>listener_sees := live\<rparr>) (email carol_screen)
                (password carol_screen) (beginEmailOtpFlow idle_state))) = None
   \<and> calls (fst (handleLogin (carol_world\<lparr>listener_sees := live\<rparr>) (idle_state, carol_screen)))
       = [SignInWithPassword ''carol@example.com'' ''Passw0rd'', SignOut,
          SignInWithOtp ''carol@example.com'']"
  by (simp add: eval_defs carol_world_def carol_screen_def carol_row_def)

subsection \<open>Biometric sign-in, cancellation, resend\<close>

text \<open>
  C5 (the code departs from it). Alice has 2FA enabled and stored biometric credentials,
  and the device challenge succeeds. \<open>signInWithBiometric\<close> returns true with a session
  and the user set, but \<open>pending2FA\<close> is \<open>{ userId, show: true }\<close>: the callback of
  \<open>onAuthStateChange\<close> reads the \<open>isBiometricLogin\<close> of the first render.
\<close>

theorem signInWithBiometric_shows_2fa_prompt:
  "authenticateWithBiometric demo_world = Some (''alice@example.com'', ''correct-password'')
   \<and> map_option two_factor_enabled (user_profile demo_world ''alice-uid'') = Some True
   \<and> snd (signInWithBiometric demo_world idle_state) = True
   \<and> session (fst (signInWithBiometric demo_world idle_state)) = Some ''alice-uid''
   \<and> user (fst (signInWithBiometric demo_world idle_state)) = Some ''alice-uid''
   \<and> pending2FA (fst (signInWithBiometric demo_world idle_state)) = Some (''alice-uid'', True)"
  by (simp add: eval_defs)

text \<open>
  With a callback that read the current flag, the same sign-in would leave no pending
  2FA.
\<close>

lemma signInWithBiometric_live_flag:
  "pending2FA (fst (signInWithBiometric (demo_world\<lparr>listener_sees := live\<rparr>) idle_state)) = None
   \<and> user (fst (signInWithBiometric (demo_world\<lparr>listener_sees := live\<rparr>) idle_state)) = Some ''alice-uid''"
  by (simp add: eval_defs)

lemma cancel2FALogin_effect:
  "session (cancel2FALogin w st) = None"
  "pending2FACredentials (cancel2FALogin w st) = None"
  "pending2FA (cancel2FALogin w st) = None"
  "calls (cancel2FALogin w st) = calls st @ [SignOut]"
  by (simp_all add: cancel2FALogin_def auth_signOut_effect)

lemma cancel2FALogin_user: "user st = None \<Longrightarrow> user (cancel2FALogin w st) = None"
  by (simp add: cancel2FALogin_def auth_signOut_effect)

lemma handleVerifyOTP_without_user:
  assumes "code \<noteq> []" "length code = (if showBackupCode then 8 else 6)"
  shows "handleVerifyOTP otp_of fault clock showBackupCode code None None tbl
     = (tbl, VerifyFailed (Error ''No user ID available for verification''))"
  using assms by (simp add: handleVerifyOTP_def currentUserId_def)

text \<open>
  C6. After \<open>cancel2FALogin\<close>, from any state: no session (\<open>getSession\<close> returns none), no
  stored credentials, no pending 2FA. \<open>complete2FALogin\<close> then does nothing and
  \<open>handle2FASuccess\<close> finds no session and sets no user. In a login attempt (no user
  yet) a well-formed code submitted to the modal afterwards is not even checked: the
  handler fails with "No user ID available for verification".
\<close>

theorem cancel2FALogin_leaves_nothing:
  "session (cancel2FALogin w st) = None
   \<and> snd (auth_getSession (cancel2FALogin w st)) = None
   \<and> pending2FACredentials (cancel2FALogin w st) = None
   \<and> pending2FA (cancel2FALogin w st) = None
   \<and> complete2FALogin w (cancel2FALogin w st) = (cancel2FALogin w st, Inr ())
   \<and> session (fst (handle2FASuccess w (cancel2FALogin w st, scr))) = None
   \<and> user (fst (handle2FASuccess w (cancel2FALogin w st, scr))) = user (cancel2FALogin w st)
   \<and> (user st = None \<and> code \<noteq> [] \<and> length code = (if showBackupCode then 8 else 6) \<longrightarrow>
        submit_2fa_code otp_of fault clock showBackupCode code w (cancel2FALogin w st, scr)
          = (w, (cancel2FALogin w st, scr),
             VerifyFailed (Error ''No user ID available for verification'')))"
proof -
  let ?c = "cancel2FALogin w st"
  note e = cancel2FALogin_effect[of w st]
  have g: "snd (auth_getSession ?c) = None" by (simp add: auth_getSession_def e)
  have l: "complete2FALogin w ?c = (?c, Inr ())" by (simp add: complete2FALogin_def e)
  have h: "fst (handle2FASuccess w (?c, scr)) = ?c\<lparr>calls := calls ?c @ [GetSession]\<rparr>"
    by (simp add: handle2FASuccess_eq complete2FAUsingExistingSession_def auth_getSession_def e)
  have s: "submit_2fa_code otp_of fault clock showBackupCode code w (?c, scr)
          = (w, (?c, scr), VerifyFailed (Error ''No user ID available for verification''))"
    if "user st = None" "code \<noteq> []" "length code = (if showBackupCode then 8 else 6)"
    using that cancel2FALogin_user[of st w] handleVerifyOTP_without_user[OF that(2,3)]
    by (simp add: submit_2fa_code_def e(3))
  show ?thesis using e g l h s by simp
qed

theorem cancel2FALogin_leaves_nothing_witness:
  "session (fst bob_after_email_code) = Some ''bob-uid''
   \<and> user (fst bob_after_email_code) = None
   \<and> session (cancel2FALogin demo_world (fst bob_after_email_code)) = None
   \<and> pending2FACredentials (cancel2FALogin demo_world (fst bob_after_email_code)) = None
   \<and> snd (snd (submit_2fa_code sample_package None (\<lambda>k. 60000) False ''482913'' demo_world
         (cancel2FALogin demo_world (fst bob_after_email_code), snd bob_after_email_code)))
       = VerifyFailed (Error ''No user ID available for verification'')"
  using cancel2FALogin_leaves_nothing
    [of demo_world "fst bob_after_email_code" "snd bob_after_email_code" "''482913''" False
        sample_package None "\<lambda>k. 60000"]
  by (simp add: bob_after_email_code_value idle_state_def)

lemma login_handlers_keep_not_sending:
  assumes "\<not> sendingEmailOtp scr"
  shows "\<not> sendingEmailOtp (snd (handleLogin w (st, scr)))"
    "\<not> sendingEmailOtp (snd (handleVerifyEmailOtp w (st, scr)))"
    "\<not> sendingEmailOtp (snd (handleResendEmailOtp w (st, scr)))"
    "\<not> sendingEmailOtp (snd (handle2FASuccess w (st, scr)))"
    "\<not> sendingEmailOtp (snd (handle2FACancel w (st, scr)))"
  using assms
  by (auto simp: handleLogin_def handleLogin_step1_def handleLogin_step2_def handleLogin_catch_def
      handleVerifyEmailOtp_def handleResendEmailOtp_def handle2FASuccess_eq handle2FACancel_def
      split: prod.splits sum.splits option.splits)



lemma tick_countdown: "(tick ^^ k) n = n - k"
  by (induction k) (auto simp: tick_def)

lemma handleResendEmailOtp_sends_after_cooldown:
  assumes "resendSecondsLeft scr = 0" "otp_send_error w = None"
  shows "calls (fst (handleResendEmailOtp w (st, scr))) = calls st @ [SignInWithOtp (email scr)]"
    "resendSecondsLeft (snd (handleResendEmailOtp w (st, scr))) = 30"
  using assms by (simp_all add: handleResendEmailOtp_def auth_signInWithOtp_def)

end
